theory Spec2Isabelle
  imports Complex_Main "HOL-Library.Sublist" "HOL-Library.AList"
begin

section \<open>Python values\<close>

text \<open>
  A Python \<open>str\<close> is a sequence of Unicode code points, so a string is a list of code
  points (natural numbers). ASCII literals of the source are written \<open>S ''...''\<close>.
\<close>

type_synonym pystr = "nat list"

abbreviation S :: "string \<Rightarrow> pystr" where
  "S s \<equiv> map of_char s"

text \<open>
  The values \<open>json.load\<close> produces. A Python \<open>dict\<close> keeps its keys in insertion order:
  it is an association list, read with \<open>map_of\<close> and written with \<open>AList.update\<close>
  (replace in place, or append a new key). A \<open>float\<close> is modelled by the rational it
  denotes and float arithmetic by exact arithmetic: rounding to binary64 is outside
  the model.
\<close>

datatype json =
    JNull
  | JBool bool
  | JInt int
  | JFloat rat
  | JStr pystr
  | JArr "json list"
  | JObj "(pystr \<times> json) list"

text \<open>The exceptions the code raises itself or lets through from the interpreter.\<close>

datatype error =
    ValueError pystr
  | KeyError pystr
  | TypeError
  | AttributeError
  | JSONDecodeError
  | FileNotFoundError

text \<open>Sequencing of computations that may raise.\<close>

definition bnd :: "error + 'a \<Rightarrow> ('a \<Rightarrow> error + 'b) \<Rightarrow> error + 'b" where
  "bnd m f = (case m of Inl e \<Rightarrow> Inl e | Inr x \<Rightarrow> f x)"

text \<open>Truthiness, as tested by \<open>if not block\<close>.\<close>

fun truthy :: "json \<Rightarrow> bool" where
  "truthy JNull = False"
| "truthy (JBool b) = b"
| "truthy (JInt i) = (i \<noteq> 0)"
| "truthy (JFloat r) = (r \<noteq> 0)"
| "truthy (JStr s) = (s \<noteq> [])"
| "truthy (JArr xs) = (xs \<noteq> [])"
| "truthy (JObj kv) = (kv \<noteq> [])"

subsection \<open>String operations\<close>

text \<open>
  \<open>str.isspace\<close> for one code point: the characters \<open>str.split()\<close> and \<open>str.strip()\<close>
  treat as whitespace.
\<close>

definition isspace :: "nat \<Rightarrow> bool" where
  "isspace c \<longleftrightarrow>
     (9 \<le> c \<and> c \<le> 13) \<or> (28 \<le> c \<and> c \<le> 32) \<or> c = 133 \<or> c = 160 \<or> c = 5760 \<or>
     (8192 \<le> c \<and> c \<le> 8202) \<or> c = 8232 \<or> c = 8233 \<or> c = 8239 \<or> c = 8287 \<or> c = 12288"

text \<open>
  \<open>str.lower\<close>, for the cased letters of U+0000..U+00FF (\<open>A-Z\<close> and the upper-case
  letters of Latin-1). The case mappings of higher code points are not modelled: such a
  code point is left as it is.
\<close>

definition lower_char :: "nat \<Rightarrow> nat" where
  "lower_char c =
     (if (65 \<le> c \<and> c \<le> 90) \<or> (192 \<le> c \<and> c \<le> 214) \<or> (216 \<le> c \<and> c \<le> 222)
      then c + 32 else c)"

definition py_lower :: "pystr \<Rightarrow> pystr" where
  "py_lower s = map lower_char s"

text \<open>\<open>s.split()\<close>: the maximal runs of non-whitespace, in order. \<open>cur\<close> is the run being read.\<close>

fun split_run :: "pystr \<Rightarrow> pystr \<Rightarrow> pystr list" where
  "split_run cur [] = (if cur = [] then [] else [cur])"
| "split_run cur (c # cs) =
     (if isspace c then (if cur = [] then split_run [] cs else cur # split_run [] cs)
      else split_run (cur @ [c]) cs)"

definition py_split :: "pystr \<Rightarrow> pystr list" where
  "py_split s = split_run [] s"

text \<open>\<open>sep.join(xs)\<close>, \<open>t in s\<close> on strings, and \<open>s.endswith(suf)\<close>.\<close>

fun py_join :: "pystr \<Rightarrow> pystr list \<Rightarrow> pystr" where
  "py_join sep [] = []"
| "py_join sep [x] = x"
| "py_join sep (x # y # ys) = x @ sep @ py_join sep (y # ys)"

definition str_in :: "pystr \<Rightarrow> pystr \<Rightarrow> bool" where
  "str_in t s = sublist t s"

definition endswith :: "pystr \<Rightarrow> pystr \<Rightarrow> bool" where
  "endswith s suf \<longleftrightarrow> length suf \<le> length s \<and> drop (length s - length suf) s = suf"

section \<open>The block store\<close>

text \<open>
  The data directory. A file holds either a JSON document or text that \<open>json.load\<close>
  rejects with \<open>JSONDecodeError\<close>. A directory is the list of its files in the order
  \<open>os.listdir\<close> returns them; the store maps the name of each existing subdirectory of
  \<open>data_dir\<close> to its directory. Domain and file names are single path components: a
  file is addressed by the pair of its directory name and its file name.
\<close>

datatype fcontent = Garbage | Doc json

type_synonym directory = "(pystr \<times> fcontent) list"

type_synonym store = "(pystr \<times> directory) list"

definition domains :: "pystr list" where
  "domains = [S ''defense'', S ''proactive'', S ''mindset'', S ''efficiency'', S ''relationship'']"

definition json_load :: "fcontent \<Rightarrow> error + json" where
  "json_load c = (case c of Garbage \<Rightarrow> Inl JSONDecodeError | Doc v \<Rightarrow> Inr v)"

text \<open>The file at \<open>data_dir/d/n\<close>, if both the directory and the file exist.\<close>

definition file_at :: "store \<Rightarrow> pystr \<Rightarrow> pystr \<Rightarrow> fcontent option" where
  "file_at st d n = (case map_of st d of None \<Rightarrow> None | Some dir \<Rightarrow> map_of dir n)"

text \<open>\<open>_ensure_dirs\<close>, run by the constructor: every domain directory that is missing is created.\<close>

definition ensure_dirs :: "store \<Rightarrow> store" where
  "ensure_dirs st = fold (\<lambda>d acc. if map_of acc d = None then acc @ [(d, [])] else acc) domains st"

subsection \<open>search_blocks\<close>

text \<open>\<open>' '.join(v)\<close> for the value of \<open>tags\<close>: a list of strings, a string (its characters)
  or a dict (its keys); anything else raises \<open>TypeError\<close>.\<close>

fun the_strs :: "json list \<Rightarrow> pystr list option" where
  "the_strs [] = Some []"
| "the_strs (JStr s # vs) = map_option ((#) s) (the_strs vs)"
| "the_strs (_ # vs) = None"

definition join_tags :: "json \<Rightarrow> error + pystr" where
  "join_tags v =
     (case v of
        JArr xs \<Rightarrow> (case the_strs xs of None \<Rightarrow> Inl TypeError | Some ss \<Rightarrow> Inr (py_join (S '' '') ss))
      | JStr s \<Rightarrow> Inr (py_join (S '' '') (map (\<lambda>c. [c]) s))
      | JObj kv \<Rightarrow> Inr (py_join (S '' '') (map fst kv))
      | _ \<Rightarrow> Inl TypeError)"

text \<open>\<open>block.get(key, '').lower()\<close>.\<close>

definition get_lower :: "(pystr \<times> json) list \<Rightarrow> pystr \<Rightarrow> error + pystr" where
  "get_lower kv key =
     (case map_of kv key of
        None \<Rightarrow> Inr []
      | Some (JStr s) \<Rightarrow> Inr (py_lower s)
      | Some _ \<Rightarrow> Inl AttributeError)"

text \<open>The f-string \<open>search_text\<close> of \<open>search_blocks\<close>: title and content are lower-cased, the
  tags are joined as they are stored.\<close>

definition search_text :: "json \<Rightarrow> error + pystr" where
  "search_text block =
     (case block of
        JObj kv \<Rightarrow>
          bnd (get_lower kv (S ''title'')) (\<lambda>title.
          bnd (get_lower kv (S ''content'')) (\<lambda>content.
          bnd (join_tags (case map_of kv (S ''tags'') of None \<Rightarrow> JArr [] | Some v \<Rightarrow> v)) (\<lambda>tags.
          Inr (title @ S '' '' @ content @ S '' '' @ tags))))
      | _ \<Rightarrow> Inl AttributeError)"

text \<open>The loop over the files of one domain directory.\<close>

fun search_dir :: "pystr list \<Rightarrow> directory \<Rightarrow> error + json list" where
  "search_dir terms [] = Inr []"
| "search_dir terms ((filename, c) # rest) =
     (if \<not> endswith filename (S ''.json'') then search_dir terms rest
      else case c of
        Garbage \<Rightarrow> search_dir terms rest
      | Doc block \<Rightarrow>
          bnd (search_text block) (\<lambda>text.
          bnd (search_dir terms rest) (\<lambda>results.
          Inr (if list_all (\<lambda>term. str_in term text) terms then block # results else results))))"

text \<open>The loop over the domains.\<close>

fun search_domains :: "pystr list \<Rightarrow> store \<Rightarrow> pystr list \<Rightarrow> error + json list" where
  "search_domains terms st [] = Inr []"
| "search_domains terms st (d # ds) =
     (case map_of st d of
        None \<Rightarrow> search_domains terms st ds
      | Some dir \<Rightarrow>
          bnd (search_dir terms dir) (\<lambda>r1.
          bnd (search_domains terms st ds) (\<lambda>r2. Inr (r1 @ r2))))"

text \<open>The domains an operation scans: the given one if it is a non-empty string, else all.\<close>

definition scanned :: "pystr option \<Rightarrow> pystr list" where
  "scanned domain = (case domain of None \<Rightarrow> domains | Some d \<Rightarrow> if d = [] then domains else [d])"

definition search_blocks :: "store \<Rightarrow> pystr \<Rightarrow> pystr option \<Rightarrow> error + json list" where
  "search_blocks st query domain = search_domains (py_split (py_lower query)) st (scanned domain)"

subsection \<open>Library functions that are parameters of the model\<close>

text \<open>
  \<open>md5hex\<close> is \<open>hashlib.md5(s.encode('utf-8')).hexdigest()\<close>, \<open>str_other\<close> is \<open>str()\<close> on a
  float, a list or a dict, \<open>dumps\<close> is \<open>json.dumps(v, ensure_ascii=False, indent=2)\<close>.
  The schema is the content of \<open>schema.json\<close>: the required field names and, for each
  property, its declared \<open>type\<close> if it has one.
\<close>

record pylib =
  md5hex :: "pystr \<Rightarrow> pystr"
  str_other :: "json \<Rightarrow> pystr"
  dumps :: "json \<Rightarrow> pystr"

record schema =
  required :: "pystr list"
  properties :: "(pystr \<times> pystr option) list"

subsection \<open>Integers and strings\<close>

text \<open>\<open>str(n)\<close> for an integer.\<close>

fun dec_nat :: "nat \<Rightarrow> pystr" where
  "dec_nat n = (if n < 10 then [48 + n] else dec_nat (n div 10) @ [48 + n mod 10])"

definition str_int :: "int \<Rightarrow> pystr" where
  "str_int i = (if i < 0 then 45 # dec_nat (nat (- i)) else dec_nat (nat i))"

text \<open>The f-string conversion \<open>f"{v}"\<close> of a value.\<close>

definition py_str :: "pylib \<Rightarrow> json \<Rightarrow> pystr" where
  "py_str L v =
     (case v of
        JStr s \<Rightarrow> s
      | JInt i \<Rightarrow> str_int i
      | JBool b \<Rightarrow> (if b then S ''True'' else S ''False'')
      | JNull \<Rightarrow> S ''None''
      | _ \<Rightarrow> str_other L v)"

text \<open>
  \<open>int(s)\<close>: surrounding whitespace is stripped, a sign may come first, then decimal
  digits, single underscores allowed between digits. Only the ASCII digits are modelled
  (Python also accepts the other decimal digits of Unicode).
\<close>

definition isdigit :: "nat \<Rightarrow> bool" where
  "isdigit c \<longleftrightarrow> 48 \<le> c \<and> c \<le> 57"

definition py_strip :: "pystr \<Rightarrow> pystr" where
  "py_strip s = rev (dropWhile isspace (rev (dropWhile isspace s)))"

fun digits_val :: "nat \<Rightarrow> pystr \<Rightarrow> nat option" where
  "digits_val acc [] = Some acc"
| "digits_val acc (c # cs) =
     (if isdigit c then digits_val (10 * acc + (c - 48)) cs
      else if c = 95 \<and> cs \<noteq> [] \<and> isdigit (hd cs) then digits_val acc cs
      else None)"

definition digits :: "pystr \<Rightarrow> nat option" where
  "digits s = (case s of [] \<Rightarrow> None | c # cs \<Rightarrow> if isdigit c then digits_val 0 s else None)"

definition py_int :: "pystr \<Rightarrow> int option" where
  "py_int s =
     (case py_strip s of
        [] \<Rightarrow> None
      | c # cs \<Rightarrow>
          if c = 45 then map_option (\<lambda>n. - int n) (digits cs)
          else if c = 43 then map_option int (digits cs)
          else map_option int (digits (c # cs)))"

text \<open>\<open>s.split(sep)\<close> for a one-character separator: every separator splits, empty parts are kept.\<close>

fun split_on :: "nat \<Rightarrow> pystr \<Rightarrow> pystr list" where
  "split_on sep [] = [[]]"
| "split_on sep (c # cs) =
     (if c = sep then [] # split_on sep cs
      else (c # hd (split_on sep cs)) # tl (split_on sep cs))"

subsection \<open>generate_id\<close>

text \<open>\<open>re.sub(r'[^a-z0-9]+', '-', s)\<close>: every maximal run of other characters becomes one dash.
  \<open>in_run\<close> says that the previous character was already part of such a run.\<close>

definition slug_char :: "nat \<Rightarrow> bool" where
  "slug_char c \<longleftrightarrow> (97 \<le> c \<and> c \<le> 122) \<or> (48 \<le> c \<and> c \<le> 57)"

fun dash_runs :: "bool \<Rightarrow> pystr \<Rightarrow> pystr" where
  "dash_runs in_run [] = []"
| "dash_runs in_run (c # cs) =
     (if slug_char c then c # dash_runs False cs
      else if in_run then dash_runs True cs
      else 45 # dash_runs True cs)"

definition strip_dash :: "pystr \<Rightarrow> pystr" where
  "strip_dash s = rev (dropWhile (\<lambda>c. c = 45) (rev (dropWhile (\<lambda>c. c = 45) s)))"

text \<open>\<open>t\<close> is the reading of the clock inside \<open>generate_id\<close>.\<close>

definition generate_id :: "pylib \<Rightarrow> pystr \<Rightarrow> pystr \<Rightarrow> pystr" where
  "generate_id L t title =
     (let short_hash = take 8 (md5hex L (title @ S ''_'' @ t));
          slug = take 30 (strip_dash (dash_runs False (py_lower title)))
      in slug @ S ''_'' @ short_hash)"

subsection \<open>_validate_block\<close>

definition is_int :: "json \<Rightarrow> bool" where
  "is_int v = (case v of JInt _ \<Rightarrow> True | JBool _ \<Rightarrow> True | _ \<Rightarrow> False)"

definition is_number :: "json \<Rightarrow> bool" where
  "is_number v = (case v of JInt _ \<Rightarrow> True | JBool _ \<Rightarrow> True | JFloat _ \<Rightarrow> True | _ \<Rightarrow> False)"

definition is_str :: "json \<Rightarrow> bool" where
  "is_str v = (case v of JStr _ \<Rightarrow> True | _ \<Rightarrow> False)"

definition is_bool :: "json \<Rightarrow> bool" where
  "is_bool v = (case v of JBool _ \<Rightarrow> True | _ \<Rightarrow> False)"

definition is_list :: "json \<Rightarrow> bool" where
  "is_list v = (case v of JArr _ \<Rightarrow> True | _ \<Rightarrow> False)"

definition is_dict :: "json \<Rightarrow> bool" where
  "is_dict v = (case v of JObj _ \<Rightarrow> True | _ \<Rightarrow> False)"

text \<open>The \<open>if\<close>/\<open>elif\<close> chain on \<open>expected_type\<close>: the message of the error raised, if any.\<close>

definition type_check :: "pystr \<Rightarrow> pystr \<Rightarrow> json \<Rightarrow> error option" where
  "type_check field expected_type v =
     (if expected_type = S ''string'' \<and> \<not> is_str v
        then Some (ValueError (S ''Field '' @ field @ S '' should be a string''))
      else if expected_type = S ''number'' \<and> \<not> is_number v
        then Some (ValueError (S ''Field '' @ field @ S '' should be a number''))
      else if expected_type = S ''integer'' \<and> \<not> is_int v
        then Some (ValueError (S ''Field '' @ field @ S '' should be an integer''))
      else if expected_type = S ''boolean'' \<and> \<not> is_bool v
        then Some (ValueError (S ''Field '' @ field @ S '' should be a boolean''))
      else if expected_type = S ''array'' \<and> \<not> is_list v
        then Some (ValueError (S ''Field '' @ field @ S '' should be an array''))
      else if expected_type = S ''object'' \<and> \<not> is_dict v
        then Some (ValueError (S ''Field '' @ field @ S '' should be an object''))
      else None)"

fun check_required :: "pystr list \<Rightarrow> (pystr \<times> json) list \<Rightarrow> error + unit" where
  "check_required [] kv = Inr ()"
| "check_required (field # rest) kv =
     (if map_of kv field = None then Inl (ValueError (S ''Missing required field: '' @ field))
      else check_required rest kv)"

fun check_types :: "(pystr \<times> pystr option) list \<Rightarrow> (pystr \<times> json) list \<Rightarrow> error + unit" where
  "check_types [] kv = Inr ()"
| "check_types ((field, props) # rest) kv =
     (case (map_of kv field, props) of
        (Some v, Some expected_type) \<Rightarrow>
          (case type_check field expected_type v of
             Some e \<Rightarrow> Inl e
           | None \<Rightarrow> check_types rest kv)
      | _ \<Rightarrow> check_types rest kv)"

definition validate_block :: "schema \<Rightarrow> (pystr \<times> json) list \<Rightarrow> error + unit" where
  "validate_block sch kv =
     bnd (check_required (required sch) kv) (\<lambda>_. check_types (properties sch) kv)"

subsection \<open>_save_block and get_block\<close>

text \<open>
  An operation that writes returns its result, or the exception it raised, together
  with the store it leaves behind. \<open>open(path, 'w')\<close> raises \<open>FileNotFoundError\<close> when the
  directory does not exist.
\<close>

definition save_block :: "pylib \<Rightarrow> store \<Rightarrow> (pystr \<times> json) list \<Rightarrow> (error + unit) \<times> store" where
  "save_block L st kv =
     (case map_of kv (S ''domain'') of
        None \<Rightarrow> (Inl (KeyError (S ''domain'')), st)
      | Some dv \<Rightarrow>
     (case map_of kv (S ''id'') of
        None \<Rightarrow> (Inl (KeyError (S ''id'')), st)
      | Some iv \<Rightarrow>
     (case dv of
        JStr domain \<Rightarrow>
          (case map_of st domain of
             None \<Rightarrow> (Inl FileNotFoundError, st)
           | Some dir \<Rightarrow>
               (Inr (), AList.update domain
                          (AList.update (py_str L iv @ S ''.json'') (Doc (JObj kv)) dir) st))
      | _ \<Rightarrow> (Inl TypeError, st))))"

text \<open>The loop of \<open>get_block\<close> over the domains: the first directory that has the file.\<close>

fun first_hit :: "store \<Rightarrow> pystr \<Rightarrow> pystr list \<Rightarrow> error + json option" where
  "first_hit st block_id [] = Inr None"
| "first_hit st block_id (d # ds) =
     (case file_at st d (block_id @ S ''.json'') of
        Some c \<Rightarrow> bnd (json_load c) (\<lambda>v. Inr (Some v))
      | None \<Rightarrow> first_hit st block_id ds)"

definition get_block :: "store \<Rightarrow> pystr \<Rightarrow> pystr option \<Rightarrow> error + json option" where
  "get_block st block_id domain = first_hit st block_id (scanned domain)"

subsection \<open>create_block\<close>

definition set_default :: "pystr \<Rightarrow> json \<Rightarrow> (pystr \<times> json) list \<Rightarrow> (pystr \<times> json) list" where
  "set_default k v kv = (if map_of kv k = None then AList.update k v kv else kv)"

text \<open>The statements of \<open>create_block\<close> before validation: id, timestamps, defaults.
  \<open>t\<close> is the clock inside \<open>generate_id\<close>, \<open>now\<close> the clock read for the timestamps.\<close>

definition fill_block :: "pylib \<Rightarrow> pystr \<Rightarrow> pystr \<Rightarrow> (pystr \<times> json) list \<Rightarrow> error + (pystr \<times> json) list" where
  "fill_block L t now block_data =
     bnd (if map_of block_data (S ''id'') \<noteq> None then Inr block_data
          else case map_of block_data (S ''title'') of
                 None \<Rightarrow> Inl (KeyError (S ''title''))
               | Some (JStr title) \<Rightarrow>
                   Inr (AList.update (S ''id'') (JStr (generate_id L t title)) block_data)
               | Some _ \<Rightarrow> Inl AttributeError) (\<lambda>d1.
     Inr (set_default (S ''related_blocks'') (JArr [])
         (set_default (S ''tags'') (JArr [])
         (set_default (S ''examples'') (JArr [])
         (set_default (S ''variations'') (JArr [])
         (set_default (S ''feedback'') (JArr [])
         (set_default (S ''rating'') (JFloat 0)
         (set_default (S ''usage_count'') (JInt 0)
         (set_default (S ''version'') (JStr (S ''1.0''))
         (AList.update (S ''updated_at'') (JStr now)
         (set_default (S ''created_at'') (JStr now) d1)))))))))))"

definition create_block ::
  "pylib \<Rightarrow> schema \<Rightarrow> pystr \<Rightarrow> pystr \<Rightarrow> store \<Rightarrow> (pystr \<times> json) list \<Rightarrow> (error + json) \<times> store" where
  "create_block L sch t now st block_data =
     (case fill_block L t now block_data of
        Inl e \<Rightarrow> (Inl e, st)
      | Inr kv \<Rightarrow>
     (case validate_block sch kv of
        Inl e \<Rightarrow> (Inl e, st)
      | Inr _ \<Rightarrow>
     (case save_block L st kv of
        (Inl e, st') \<Rightarrow> (Inl e, st')
      | (Inr _, st') \<Rightarrow> (Inr (JObj kv), st'))))"

subsection \<open>update_block\<close>

text \<open>\<open>block.update(updates)\<close>: every item of the payload is assigned in turn.\<close>

definition dict_update :: "(pystr \<times> json) list \<Rightarrow> (pystr \<times> json) list \<Rightarrow> (pystr \<times> json) list" where
  "dict_update kv updates = fold (\<lambda>(k, v) acc. AList.update k v acc) updates kv"

text \<open>
  \<open>major, minor = map(int, version.split('.'))\<close>: the iterator is consumed part by part,
  so a third part is still converted before the unpacking complains. The messages of
  the interpreter's own \<open>ValueError\<close>s are abbreviated.
\<close>

definition bad_int :: error where
  "bad_int = ValueError (S ''invalid literal for int()'')"

definition parse_version :: "pystr \<Rightarrow> error + int \<times> int" where
  "parse_version s =
     (case split_on 46 s of
        [] \<Rightarrow> Inl (ValueError (S ''not enough values to unpack''))
      | p1 # ps \<Rightarrow>
     (case py_int p1 of
        None \<Rightarrow> Inl bad_int
      | Some major \<Rightarrow>
     (case ps of
        [] \<Rightarrow> Inl (ValueError (S ''not enough values to unpack''))
      | p2 # ps' \<Rightarrow>
     (case py_int p2 of
        None \<Rightarrow> Inl bad_int
      | Some minor \<Rightarrow>
     (case ps' of
        [] \<Rightarrow> Inr (major, minor)
      | p3 # _ \<Rightarrow>
          (if py_int p3 = None then Inl bad_int
           else Inl (ValueError (S ''too many values to unpack''))))))))"

text \<open>The statement \<open>if 'version' in block: ...\<close>.\<close>

definition bump_version :: "(pystr \<times> json) list \<Rightarrow> error + (pystr \<times> json) list" where
  "bump_version kv =
     (case map_of kv (S ''version'') of
        None \<Rightarrow> Inr kv
      | Some (JStr s) \<Rightarrow>
          bnd (parse_version s) (\<lambda>(major, minor).
          Inr (AList.update (S ''version'') (JStr (str_int major @ S ''.'' @ str_int (minor + 1))) kv))
      | Some _ \<Rightarrow> Inl AttributeError)"

text \<open>The statements of \<open>update_block\<close> between the lookup and the validation: merge the
  payload, refresh \<open>updated_at\<close>, increment the version.\<close>

definition merge_updates :: "pystr \<Rightarrow> (pystr \<times> json) list \<Rightarrow> (pystr \<times> json) list \<Rightarrow> error + (pystr \<times> json) list" where
  "merge_updates now kv updates =
     bump_version (AList.update (S ''updated_at'') (JStr now) (dict_update kv updates))"

definition update_block ::
  "pylib \<Rightarrow> schema \<Rightarrow> pystr \<Rightarrow> store \<Rightarrow> pystr \<Rightarrow> (pystr \<times> json) list \<Rightarrow> (error + json option) \<times> store" where
  "update_block L sch now st block_id updates =
     (case get_block st block_id None of
        Inl e \<Rightarrow> (Inl e, st)
      | Inr None \<Rightarrow> (Inr None, st)
      | Inr (Some block) \<Rightarrow>
          if \<not> truthy block then (Inr None, st)
          else
     (case block of
        JObj kv \<Rightarrow>
          (case merge_updates now kv updates of
             Inl e \<Rightarrow> (Inl e, st)
           | Inr kv' \<Rightarrow>
          (case validate_block sch kv' of
             Inl e \<Rightarrow> (Inl e, st)
           | Inr _ \<Rightarrow>
          (case save_block L st kv' of
             (Inl e, st') \<Rightarrow> (Inl e, st')
           | (Inr _, st') \<Rightarrow> (Inr (Some (JObj kv')), st'))))
      | _ \<Rightarrow> (Inl AttributeError, st)))"

subsection \<open>delete_block\<close>

definition delete_block :: "store \<Rightarrow> pystr \<Rightarrow> (error + bool) \<times> store" where
  "delete_block st block_id =
     (case get_block st block_id None of
        Inl e \<Rightarrow> (Inl e, st)
      | Inr None \<Rightarrow> (Inr False, st)
      | Inr (Some block) \<Rightarrow>
          if \<not> truthy block then (Inr False, st)
          else
     (case block of
        JObj kv \<Rightarrow>
          (case map_of kv (S ''domain'') of
             None \<Rightarrow> (Inl (KeyError (S ''domain'')), st)
           | Some (JStr domain) \<Rightarrow>
               (case map_of st domain of
                  None \<Rightarrow> (Inr False, st)
                | Some dir \<Rightarrow>
                    if map_of dir (block_id @ S ''.json'') \<noteq> None
                    then (Inr True, AList.update domain (AList.delete (block_id @ S ''.json'') dir) st)
                    else (Inr False, st))
           | Some _ \<Rightarrow> (Inl TypeError, st))
      | _ \<Rightarrow> (Inl TypeError, st)))"

subsection \<open>add_feedback and increment_usage\<close>

text \<open>
  One step of the comprehension \<open>[f['rating'] for f in block['feedback'] if 'rating' in f]\<close>:
  the rating of an entry, if it has one. On a string \<open>in\<close> is the substring test and on
  a list the membership test, and indexing either with \<open>'rating'\<close> raises.
\<close>

definition entry_rating :: "json \<Rightarrow> error + json option" where
  "entry_rating f =
     (case f of
        JObj kv \<Rightarrow> Inr (map_of kv (S ''rating''))
      | JStr s \<Rightarrow> if str_in (S ''rating'') s then Inl TypeError else Inr None
      | JArr xs \<Rightarrow> if JStr (S ''rating'') \<in> set xs then Inl TypeError else Inr None
      | _ \<Rightarrow> Inl TypeError)"

fun collect_ratings :: "json list \<Rightarrow> error + json list" where
  "collect_ratings [] = Inr []"
| "collect_ratings (f # fs) =
     bnd (entry_rating f) (\<lambda>r.
     bnd (collect_ratings fs) (\<lambda>rs.
     Inr (case r of None \<Rightarrow> rs | Some v \<Rightarrow> v # rs)))"

text \<open>The number a value denotes in arithmetic, if it is one (\<open>True\<close> is 1).\<close>

definition num_val :: "json \<Rightarrow> rat option" where
  "num_val v =
     (case v of
        JInt i \<Rightarrow> Some (of_int i)
      | JBool b \<Rightarrow> Some (if b then 1 else 0)
      | JFloat r \<Rightarrow> Some r
      | _ \<Rightarrow> None)"

text \<open>\<open>sum(ratings)\<close>, starting from 0.\<close>

fun py_sum :: "rat \<Rightarrow> json list \<Rightarrow> error + rat" where
  "py_sum acc [] = Inr acc"
| "py_sum acc (v # vs) =
     (case num_val v of None \<Rightarrow> Inl TypeError | Some x \<Rightarrow> py_sum (acc + x) vs)"

text \<open>The statements under \<open># Update rating\<close>.\<close>

definition update_rating :: "(pystr \<times> json) list \<Rightarrow> json list \<Rightarrow> error + (pystr \<times> json) list" where
  "update_rating kv entries =
     bnd (collect_ratings entries) (\<lambda>ratings.
     if ratings = [] then Inr kv
     else bnd (py_sum 0 ratings) (\<lambda>total.
          Inr (AList.update (S ''rating'') (JFloat (total / of_nat (length ratings))) kv)))"

text \<open>\<open>t\<close> is the clock inside \<open>generate_id\<close>, \<open>now\<close> the clock read for the entry's date.\<close>

definition add_feedback ::
  "pylib \<Rightarrow> pystr \<Rightarrow> pystr \<Rightarrow> store \<Rightarrow> pystr \<Rightarrow> (pystr \<times> json) list \<Rightarrow> (error + json option) \<times> store" where
  "add_feedback L t now st block_id feedback =
     (case get_block st block_id None of
        Inl e \<Rightarrow> (Inl e, st)
      | Inr None \<Rightarrow> (Inr None, st)
      | Inr (Some block) \<Rightarrow>
          if \<not> truthy block then (Inr None, st)
          else
     (case block of
        JObj kv \<Rightarrow>
          (let entry = JObj (AList.update (S ''date'') (JStr now)
                             (AList.update (S ''id'') (JStr (generate_id L t (S ''feedback_'' @ block_id)))
                                feedback));
               kv1 = set_default (S ''feedback'') (JArr []) kv
           in case map_of kv1 (S ''feedback'') of
                Some (JArr entries) \<Rightarrow>
                  (case update_rating (AList.update (S ''feedback'') (JArr (entries @ [entry])) kv1)
                          (entries @ [entry]) of
                     Inl e \<Rightarrow> (Inl e, st)
                   | Inr kv' \<Rightarrow>
                       (case save_block L st kv' of
                          (Inl e, st') \<Rightarrow> (Inl e, st')
                        | (Inr _, st') \<Rightarrow> (Inr (Some (JObj kv')), st')))
              | _ \<Rightarrow> (Inl AttributeError, st))
      | _ \<Rightarrow> (Inl TypeError, st)))"

text \<open>\<open>block.get('usage_count', 0) + 1\<close>.\<close>

definition plus_one :: "json \<Rightarrow> error + json" where
  "plus_one v =
     (case v of
        JInt i \<Rightarrow> Inr (JInt (i + 1))
      | JBool b \<Rightarrow> Inr (JInt ((if b then 1 else 0) + 1))
      | JFloat r \<Rightarrow> Inr (JFloat (r + 1))
      | _ \<Rightarrow> Inl TypeError)"

definition increment_usage :: "pylib \<Rightarrow> store \<Rightarrow> pystr \<Rightarrow> (error + json option) \<times> store" where
  "increment_usage L st block_id =
     (case get_block st block_id None of
        Inl e \<Rightarrow> (Inl e, st)
      | Inr None \<Rightarrow> (Inr None, st)
      | Inr (Some block) \<Rightarrow>
          if \<not> truthy block then (Inr None, st)
          else
     (case block of
        JObj kv \<Rightarrow>
          (case plus_one (case map_of kv (S ''usage_count'') of None \<Rightarrow> JInt 0 | Some v \<Rightarrow> v) of
             Inl e \<Rightarrow> (Inl e, st)
           | Inr n \<Rightarrow>
               (case save_block L st (AList.update (S ''usage_count'') n kv) of
                  (Inl e, st') \<Rightarrow> (Inl e, st')
                | (Inr _, st') \<Rightarrow> (Inr (Some (JObj (AList.update (S ''usage_count'') n kv))), st')))
      | _ \<Rightarrow> (Inl AttributeError, st)))"

subsection \<open>export_blocks\<close>








section \<open>Notions used in the statements\<close>

text \<open>A field of a block, and the block an operation returned (none if it raised or
  found nothing).\<close>

definition field :: "json \<Rightarrow> pystr \<Rightarrow> json option" where
  "field b k = (case b of JObj kv \<Rightarrow> map_of kv k | _ \<Rightarrow> None)"

definition returned :: "(error + json option) \<times> store \<Rightarrow> json option" where
  "returned r = (case fst r of Inr (Some b) \<Rightarrow> Some b | _ \<Rightarrow> None)"



text \<open>The matching rule in the words of the specification: every whitespace-separated,
  lower-cased query token occurs in the concatenation of the lower-cased title, the
  lower-cased content and the lower-cased tags.\<close>

definition claimed_match :: "pystr \<Rightarrow> pystr \<Rightarrow> pystr \<Rightarrow> pystr list \<Rightarrow> bool" where
  "claimed_match query title content tags =
     list_all (\<lambda>tok. str_in tok (py_lower title @ py_lower content @ concat (map py_lower tags)))
       (py_split (py_lower query))"

text \<open>The ratings present in a feedback sequence, and the arithmetic mean.\<close>

fun present_ratings :: "json list \<Rightarrow> rat list" where
  "present_ratings [] = []"
| "present_ratings (f # fs) =
     (case f of
        JObj kv \<Rightarrow>
          (case map_of kv (S ''rating'') of
             Some v \<Rightarrow> (case num_val v of Some x \<Rightarrow> x # present_ratings fs | None \<Rightarrow> present_ratings fs)
           | None \<Rightarrow> present_ratings fs)
      | _ \<Rightarrow> present_ratings fs)"

definition mean :: "rat list \<Rightarrow> rat" where
  "mean xs = sum_list xs / of_nat (length xs)"

subsection \<open>A sample installation\<close>

text \<open>The library functions of the sample: \<open>str\<close> is given on the floats that occur.\<close>

definition example_lib :: pylib where
  "example_lib = \<lparr> md5hex = (\<lambda>s. S ''d41d8cd98f00b204e9800998ecf8427e''),
                   str_other = (\<lambda>v. case v of
                       JFloat r \<Rightarrow> (if r = 0 then S ''0.0'' else if r = 3 then S ''3.0''
                                   else if r = 4 then S ''4.0'' else S ''?'')
                     | _ \<Rightarrow> S ''?''),
                   dumps = (\<lambda>v. S ''[]'') \<rparr>"

definition example_schema :: schema where
  "example_schema = \<lparr> required = [S ''id'', S ''title'', S ''type'', S ''domain'', S ''content''],
     properties = [(S ''id'', Some (S ''string'')), (S ''title'', Some (S ''string'')),
                   (S ''type'', Some (S ''string'')), (S ''domain'', Some (S ''string'')),
                   (S ''content'', Some (S ''string'')), (S ''version'', Some (S ''string'')),
                   (S ''usage_count'', Some (S ''integer'')), (S ''rating'', Some (S ''number'')),
                   (S ''feedback'', Some (S ''array'')), (S ''tags'', Some (S ''array''))] \<rparr>"

text \<open>A block created with an explicit id at time \<open>t1\<close> in a fresh data directory.\<close>

definition sample_data :: "(pystr \<times> json) list" where
  "sample_data = [(S ''id'', JStr (S ''b1'')), (S ''title'', JStr (S ''Time blocking'')),
                  (S ''type'', JStr (S ''guide'')), (S ''domain'', JStr (S ''efficiency'')),
                  (S ''content'', JStr (S ''Plan the day'')),
                  (S ''tags'', JArr [JStr (S ''Efficiency'')])]"

definition store1 :: store where
  "store1 = snd (create_block example_lib example_schema (S ''t0'') (S ''t1'') (ensure_dirs []) sample_data)"

definition sample_fields :: "(pystr \<times> json) list" where
  "sample_fields = sample_data @
     [(S ''created_at'', JStr (S ''t1'')), (S ''updated_at'', JStr (S ''t1'')),
      (S ''version'', JStr (S ''1.0'')), (S ''usage_count'', JInt 0), (S ''rating'', JFloat 0),
      (S ''feedback'', JArr []), (S ''variations'', JArr []), (S ''examples'', JArr []),
      (S ''related_blocks'', JArr [])]"

definition sample_block :: json where
  "sample_block = JObj sample_fields"



text \<open>The field \<open>k\<close> of the block an operation returned.\<close>

definition returned_field :: "(error + json option) \<times> store \<Rightarrow> pystr \<Rightarrow> json option" where
  "returned_field r k = (case returned r of Some b \<Rightarrow> field b k | None \<Rightarrow> None)"

text \<open>The sample block after \<open>update_block('b1', {'domain': 'relationship'})\<close> at time \<open>t2\<close>:
  the record that is written, and the data directory.\<close>

definition moved_fields :: "(pystr \<times> json) list" where
  "moved_fields = projr (merge_updates (S ''t2'') sample_fields [(S ''domain'', JStr (S ''relationship''))])"

definition moved_store :: store where
  "moved_store = snd (update_block example_lib example_schema (S ''t2'') store1 (S ''b1'')
                        [(S ''domain'', JStr (S ''relationship''))])"

section \<open>Properties of the block store\<close>

subsection \<open>Evaluation\<close>

lemma bnd_Inr [simp]: "bnd (Inr x) f = f x"
  by (simp add: bnd_def)

lemma bnd_Inl [simp]: "bnd (Inl e) f = Inl e"
  by (simp add: bnd_def)

lemma bnd_weak_cong [cong]: "m = m' \<Longrightarrow> bnd m f = bnd m' f"
  by simp

lemma set_default_absent: "map_of kv k = None \<Longrightarrow> set_default k v kv = AList.update k v kv"
  by (simp add: set_default_def)

lemma set_default_present: "map_of kv k = Some x \<Longrightarrow> set_default k v kv = kv"
  by (simp add: set_default_def)

lemma fresh_store: "ensure_dirs [] = map (\<lambda>d. (d, [])) domains"
  by (simp add: ensure_dirs_def domains_def)

lemma store1_eq:
  "store1 = [(S ''defense'', []), (S ''proactive'', []), (S ''mindset'', []),
             (S ''efficiency'', [(S ''b1.json'', Doc sample_block)]), (S ''relationship'', [])]"
  apply (simp add: store1_def create_block_def fill_block_def sample_data_def
           set_default_absent set_default_present)
  apply (simp add: validate_block_def example_schema_def type_check_def is_str_def is_int_def
           is_number_def is_list_def)
  apply (simp add: save_block_def fresh_store domains_def py_str_def sample_block_def sample_fields_def sample_data_def)
  done

subsection \<open>Searching\<close>

lemma search_sample_tag:
  "search_blocks store1 (S ''efficiency'') (Some (S ''efficiency'')) = Inr []"
  apply (simp add: store1_eq search_blocks_def scanned_def sample_block_def sample_fields_def sample_data_def)
  apply (simp add: py_split_def py_lower_def lower_char_def isspace_def endswith_def
           search_text_def get_lower_def join_tags_def str_in_def sublist_Cons_right)
  done

lemma claimed_sample_tag:
  "claimed_match (S ''efficiency'') (S ''Time blocking'') (S ''Plan the day'') [S ''Efficiency'']"
  by (simp add: claimed_match_def py_split_def py_lower_def lower_char_def isspace_def str_in_def
        sublist_Cons_right)

text \<open>
  C1 (the tags are compared case-insensitively). On the code this fails: the block
  \<open>b1\<close>, stored in domain \<open>efficiency\<close> with the tag \<open>Efficiency\<close>, is not returned by
  \<open>search("efficiency", "efficiency")\<close>, although the rule as claimed matches it. The
  query, the title and the content are lower-cased, the tags are not.
\<close>

theorem search_ignores_case_of_tags_fails:
  "field sample_block (S ''tags'') = Some (JArr [JStr (S ''Efficiency'')]) \<and>
   file_at store1 (S ''efficiency'') (S ''b1.json'') = Some (Doc sample_block) \<and>
   search_blocks store1 (S ''efficiency'') (Some (S ''efficiency'')) = Inr [] \<and>
   claimed_match (S ''efficiency'') (S ''Time blocking'') (S ''Plan the day'') [S ''Efficiency'']"
  using search_sample_tag claimed_sample_tag
  by (simp add: store1_eq file_at_def field_def sample_block_def sample_fields_def sample_data_def)










subsection \<open>Writing and validating\<close>

lemma file_at_update:
  "file_at (AList.update d dir' st) d' n = (if d' = d then map_of dir' n else file_at st d' n)"
  by (simp add: file_at_def update_conv')


lemma save_block_written:
  assumes "save_block L st kv = (Inr u, st')"
  shows "\<exists>d iv. map_of kv (S ''domain'') = Some (JStr d) \<and> map_of kv (S ''id'') = Some iv \<and>
           (\<forall>d' n. file_at st' d' n =
              (if d' = d \<and> n = py_str L iv @ S ''.json'' then Some (Doc (JObj kv)) else file_at st d' n))"
proof -
  from assms obtain dv iv where dv: "map_of kv (S ''domain'') = Some dv"
    and iv: "map_of kv (S ''id'') = Some iv"
    by (auto simp: save_block_def split: option.splits)
  from assms dv iv obtain d where d: "dv = JStr d"
    by (auto simp: save_block_def split: json.splits)
  from assms dv iv d obtain dir where dir: "map_of st d = Some dir"
    and st': "st' = AList.update d (AList.update (py_str L iv @ S ''.json'') (Doc (JObj kv)) dir) st"
    by (auto simp: save_block_def split: option.splits)
  have "\<forall>d' n. file_at st' d' n =
      (if d' = d \<and> n = py_str L iv @ S ''.json'' then Some (Doc (JObj kv)) else file_at st d' n)"
    using dir by (auto simp: st' file_at_update update_conv' file_at_def)
  with dv iv d show ?thesis by blast
qed

lemma first_hit_none:
  "\<forall>d\<in>set ds. file_at st d (i @ S ''.json'') = None \<Longrightarrow> first_hit st i ds = Inr None"
  by (induction ds) auto





lemma get_sample: "get_block store1 (S ''b1'') None = Inr (Some sample_block)"
  by (simp add: store1_eq get_block_def scanned_def domains_def file_at_def json_load_def)

lemmas validate_simps = validate_block_def example_schema_def type_check_def is_str_def is_int_def
  is_number_def is_list_def is_bool_def is_dict_def

lemmas version_simps = merge_updates_def dict_update_def bump_version_def parse_version_def
  py_int_def py_strip_def isspace_def digits_def isdigit_def str_int_def

lemmas sample_simps = sample_fields_def sample_data_def


subsection \<open>Exporting\<close>





subsection \<open>Deleting\<close>

lemma file_at_delete:
  "map_of st d = Some dir \<Longrightarrow>
   file_at (AList.update d (AList.delete n dir) st) d' n' =
     (if d' = d \<and> n' = n then None else file_at st d' n')"
  unfolding file_at_update by (auto simp: delete_conv' file_at_def)

lemma first_hit_found:
  "get_block st i None = Inr (Some b) \<Longrightarrow> \<exists>d\<in>set domains. file_at st d (i @ S ''.json'') = Some (Doc b)"
proof -
  have "first_hit st i ds = Inr (Some b) \<Longrightarrow> \<exists>d\<in>set ds. file_at st d (i @ S ''.json'') = Some (Doc b)" for ds
    by (induction ds) (auto simp: json_load_def split: option.splits fcontent.splits)
  then show "get_block st i None = Inr (Some b) \<Longrightarrow> ?thesis"
    by (simp add: get_block_def scanned_def)
qed

text \<open>
  C7, as amended: \<open>delete_block\<close> on an id that no domain directory holds returns
  \<open>False\<close> and changes nothing. On an id whose first match is a non-empty dict stored
  in the directory its \<open>domain\<close> field names, it returns \<open>True\<close> and removes exactly that
  file; a following \<open>get_block\<close> finds nothing provided no other domain directory
  holds a file of that id.
\<close>

theorem delete_block_amended:
  "((\<forall>d\<in>set domains. file_at st d (block_id @ S ''.json'') = None) \<longrightarrow>
      delete_block st block_id = (Inr False, st)) \<and>
   (get_block st block_id None = Inr (Some (JObj kv)) \<and> kv \<noteq> [] \<and>
    map_of kv (S ''domain'') = Some (JStr d) \<and>
    file_at st d (block_id @ S ''.json'') = Some (Doc (JObj kv)) \<longrightarrow>
      fst (delete_block st block_id) = Inr True \<and>
      (\<forall>d' n. file_at (snd (delete_block st block_id)) d' n =
          (if d' = d \<and> n = block_id @ S ''.json'' then None else file_at st d' n)) \<and>
      ((\<forall>d'\<in>set domains. d' \<noteq> d \<longrightarrow> file_at st d' (block_id @ S ''.json'') = None) \<longrightarrow>
          get_block (snd (delete_block st block_id)) block_id None = Inr None))"
proof (intro conjI impI)
  assume "\<forall>d\<in>set domains. file_at st d (block_id @ S ''.json'') = None"
  then show "delete_block st block_id = (Inr False, st)"
    by (simp add: delete_block_def get_block_def scanned_def first_hit_none)
next
  assume a: "get_block st block_id None = Inr (Some (JObj kv)) \<and> kv \<noteq> [] \<and>
    map_of kv (S ''domain'') = Some (JStr d) \<and>
    file_at st d (block_id @ S ''.json'') = Some (Doc (JObj kv))"
  then obtain dir where dir: "map_of st d = Some dir"
    and f: "map_of dir (block_id @ S ''.json'') = Some (Doc (JObj kv))"
    by (auto simp: file_at_def split: option.splits)
  have del: "delete_block st block_id =
      (Inr True, AList.update d (AList.delete (block_id @ S ''.json'') dir) st)"
    using a dir f by (simp add: delete_block_def)
  show "fst (delete_block st block_id) = Inr True"
    by (simp add: del)
  show files: "\<forall>d' n. file_at (snd (delete_block st block_id)) d' n =
          (if d' = d \<and> n = block_id @ S ''.json'' then None else file_at st d' n)"
    using dir by (simp add: del file_at_delete)
  assume "\<forall>d'\<in>set domains. d' \<noteq> d \<longrightarrow> file_at st d' (block_id @ S ''.json'') = None"
  then have "\<forall>d'\<in>set domains. file_at (snd (delete_block st block_id)) d' (block_id @ S ''.json'') = None"
    using files by simp
  then show "get_block (snd (delete_block st block_id)) block_id None = Inr None"
    by (simp add: get_block_def scanned_def first_hit_none)
qed

subsection \<open>Versions\<close>

lemma map_of_dict_update:
  "k \<notin> fst ` set updates \<Longrightarrow> map_of (dict_update kv updates) k = map_of kv k"
  unfolding dict_update_def
  by (induction updates arbitrary: kv) (auto simp: update_conv')

declare dec_nat.simps [simp del]

lemma isdigit_digit: "n < 10 \<Longrightarrow> isdigit (48 + n)"
  by (simp add: isdigit_def)

lemma dec_nat_digits: "\<forall>c\<in>set (dec_nat n). isdigit c"
proof (induction n rule: dec_nat.induct)
  case (1 n)
  show ?case
  proof (cases "n < 10")
    case True
    then show ?thesis by (subst dec_nat.simps) (simp add: isdigit_def)
  next
    case False
    have "n mod 10 < 10" by simp
    then have "isdigit (48 + n mod 10)" by (rule isdigit_digit)
    with 1 False show ?thesis by (subst dec_nat.simps) auto
  qed
qed

lemma dec_nat_nonempty: "dec_nat n \<noteq> []"
  by (subst dec_nat.simps) simp

lemma digits_val_dec_nat:
  "digits_val acc (dec_nat n @ ys) = digits_val (acc * 10 ^ length (dec_nat n) + n) ys"
proof (induction n arbitrary: acc ys rule: dec_nat.induct)
  case (1 n)
  show ?case
  proof (cases "n < 10")
    case True
    then have d: "dec_nat n = [48 + n]" by (subst dec_nat.simps) simp
    show ?thesis using True by (simp add: d isdigit_def mult.commute)
  next
    case False
    then have d: "dec_nat n = dec_nat (n div 10) @ [48 + n mod 10]"
      by (subst dec_nat.simps) simp
    have m: "isdigit (48 + n mod 10)" by (rule isdigit_digit) simp
    have "digits_val acc (dec_nat n @ ys) =
          digits_val acc (dec_nat (n div 10) @ ((48 + n mod 10) # ys))"
      by (simp add: d)
    also have "\<dots> = digits_val (acc * 10 ^ length (dec_nat (n div 10)) + n div 10) ((48 + n mod 10) # ys)"
      using 1 [OF False] by simp
    also have "\<dots> = digits_val (10 * (acc * 10 ^ length (dec_nat (n div 10)) + n div 10) + n mod 10) ys"
      using m by simp
    also have "10 * (acc * 10 ^ length (dec_nat (n div 10)) + n div 10) + n mod 10 =
               acc * 10 ^ length (dec_nat n) + n"
      by (simp add: d algebra_simps)
    finally show ?thesis .
  qed
qed

lemma digits_dec_nat: "digits (dec_nat n) = Some n"
proof -
  have "digits_val 0 (dec_nat n @ []) = Some n"
    by (subst digits_val_dec_nat) simp
  moreover obtain c cs where "dec_nat n = c # cs"
    using dec_nat_nonempty by (cases "dec_nat n") auto
  moreover have "isdigit (hd (dec_nat n))"
    using dec_nat_digits dec_nat_nonempty by (metis hd_in_set)
  ultimately show ?thesis by (simp add: digits_def)
qed

lemma digit_not_space: "isdigit c \<Longrightarrow> \<not> isspace c"
  by (auto simp: isdigit_def isspace_def)

lemma py_strip_id: "\<forall>c\<in>set s. \<not> isspace c \<Longrightarrow> py_strip s = s"
proof -
  assume a: "\<forall>c\<in>set s. \<not> isspace c"
  have d: "dropWhile isspace xs = xs" if "\<forall>c\<in>set xs. \<not> isspace c" for xs
    using that by (cases xs) auto
  show ?thesis
    using a by (simp add: py_strip_def d)
qed

lemma str_int_chars: "c \<in> set (str_int i) \<Longrightarrow> c = 45 \<or> isdigit c"
  using dec_nat_digits by (auto simp: str_int_def split: if_splits)

lemma py_int_str_int: "py_int (str_int i) = Some i"
proof -
  have ns: "\<forall>c\<in>set (str_int i). \<not> isspace c"
  proof
    fix c
    assume "c \<in> set (str_int i)"
    then consider "c = 45" | "isdigit c"
      using str_int_chars by blast
    then show "\<not> isspace c"
    proof cases
      case 1
      then show ?thesis by (simp add: isspace_def)
    next
      case 2
      then show ?thesis by (rule digit_not_space)
    qed
  qed
  show ?thesis
  proof (cases "i < 0")
    case True
    then show ?thesis
      using ns by (simp add: py_int_def py_strip_id) (simp add: str_int_def digits_dec_nat)
  next
    case False
    obtain c cs where c: "dec_nat (nat i) = c # cs"
      using dec_nat_nonempty by (cases "dec_nat (nat i)") auto
    have "isdigit c" using dec_nat_digits [of "nat i"] c by simp
    then have "c \<noteq> 45" "c \<noteq> 43" by (auto simp: isdigit_def)
    moreover have "digits (c # cs) = Some (nat i)"
      using digits_dec_nat [of "nat i"] c by simp
    ultimately show ?thesis
      using False ns c by (simp add: py_int_def py_strip_id) (simp add: str_int_def)
  qed
qed

lemma split_on_no_sep: "sep \<notin> set s \<Longrightarrow> split_on sep s = [s]"
  by (induction s) auto

lemma split_on_append: "sep \<notin> set a \<Longrightarrow> split_on sep (a @ sep # b) = a # split_on sep b"
  by (induction a) auto

lemma parse_version_str_int:
  "parse_version (str_int major @ S ''.'' @ str_int minor) = Inr (major, minor)"
proof -
  have n: "46 \<notin> set (str_int k)" for k
    using str_int_chars [of 46 k] by (auto simp: isdigit_def)
  have "split_on 46 (str_int major @ 46 # str_int minor) = [str_int major, str_int minor]"
    using n by (simp add: split_on_append split_on_no_sep)
  then show ?thesis
    by (simp add: parse_version_def py_int_str_int)
qed

subsection \<open>The same id in two domains\<close>

lemmas save_simps = save_block_def py_str_def

lemma merge_moved:
  "merge_updates (S ''t2'') sample_fields [(S ''domain'', JStr (S ''relationship''))] = Inr moved_fields"
  by (simp add: moved_fields_def sample_simps version_simps dec_nat.simps)

lemma moved_fields_eval:
  "map_of moved_fields (S ''domain'') = Some (JStr (S ''relationship''))"
  "map_of moved_fields (S ''id'') = Some (JStr (S ''b1''))"
  "moved_fields \<noteq> []"
  by (simp_all add: moved_fields_def sample_simps version_simps dec_nat.simps)

lemma validate_moved: "validate_block example_schema moved_fields = Inr ()"
  apply (simp add: moved_fields_def sample_simps version_simps dec_nat.simps)
  apply (simp add: validate_simps)
  done

lemma sample_fields_ne: "sample_fields \<noteq> []"
  by (simp add: sample_simps)

lemma moved_store_eq:
  "moved_store =
     [(S ''defense'', []), (S ''proactive'', []), (S ''mindset'', []),
      (S ''efficiency'', [(S ''b1.json'', Doc sample_block)]),
      (S ''relationship'', [(S ''b1.json'', Doc (JObj moved_fields))])]"
  using get_sample merge_moved validate_moved moved_fields_eval sample_fields_ne
  apply (simp add: moved_store_def update_block_def sample_block_def save_simps)
  apply (simp add: store1_eq sample_block_def py_str_def)
  done

text \<open>
  C7 as stated fails: after \<open>update_block('b1', {'domain': 'relationship'})\<close> the block
  is stored in two domain directories; \<open>delete_block('b1')\<close> returns \<open>True\<close>, and the
  following \<open>get_block('b1')\<close> still finds a block.
\<close>

theorem delete_then_get_finds_copy:
  "fst (delete_block moved_store (S ''b1'')) = Inr True \<and>
   get_block (snd (delete_block moved_store (S ''b1''))) (S ''b1'') None \<noteq> Inr None"
  using moved_fields_eval sample_fields_ne
  apply (simp add: moved_store_eq delete_block_def get_block_def scanned_def domains_def file_at_def
        json_load_def sample_block_def)
  apply (simp add: sample_simps file_at_def json_load_def)
  done

theorem delete_block_amended_witness:
  "delete_block store1 (S ''zz'') = (Inr False, store1) \<and>
   fst (delete_block store1 (S ''b1'')) = Inr True \<and>
   file_at (snd (delete_block store1 (S ''b1''))) (S ''efficiency'') (S ''b1.json'') = None \<and>
   get_block (snd (delete_block store1 (S ''b1''))) (S ''b1'') None = Inr None"
proof -
  have none: "\<forall>d\<in>set domains. file_at store1 d (S ''zz'' @ S ''.json'') = None"
    by (simp add: store1_eq domains_def file_at_def)
  have g: "get_block store1 (S ''b1'') None = Inr (Some (JObj sample_fields))"
    using get_sample by (simp add: sample_block_def)
  have ne: "sample_fields \<noteq> []"
    by (simp add: sample_simps)
  have d: "map_of sample_fields (S ''domain'') = Some (JStr (S ''efficiency''))"
    by (simp add: sample_simps)
  have f: "file_at store1 (S ''efficiency'') (S ''b1'' @ S ''.json'') = Some (Doc (JObj sample_fields))"
    by (simp add: store1_eq file_at_def sample_block_def)
  have o: "\<forall>d'\<in>set domains. d' \<noteq> S ''efficiency'' \<longrightarrow> file_at store1 d' (S ''b1'' @ S ''.json'') = None"
    by (simp add: store1_eq domains_def file_at_def)
  have a: "delete_block store1 (S ''zz'') = (Inr False, store1)"
    using delete_block_amended [of store1 "S ''zz''"] none by blast
  have b: "fst (delete_block store1 (S ''b1'')) = Inr True \<and>
      (\<forall>d' n. file_at (snd (delete_block store1 (S ''b1''))) d' n =
          (if d' = S ''efficiency'' \<and> n = S ''b1'' @ S ''.json'' then None else file_at store1 d' n)) \<and>
      get_block (snd (delete_block store1 (S ''b1''))) (S ''b1'') None = Inr None"
    using delete_block_amended [of store1 "S ''b1''" sample_fields "S ''efficiency''"] g ne d f o
    by blast
  from b have "file_at (snd (delete_block store1 (S ''b1''))) (S ''efficiency'') (S ''b1.json'') = None"
    by simp
  with a b show ?thesis by blast
qed

end
